theory Spec2Isabelle
  imports Complex_Main
begin

section \<open>C \<open>float\<close> values\<close>

text \<open>
  The program computes with C \<open>float\<close>. A value is a finite number, an infinity or a
  NaN. The special values follow IEEE 754 and Annex F of the C standard, since the
  program relies on them: it has no explicit test for a division by zero or for a square
  root of a negative number. Finite values are taken as exact reals: rounding, overflow
  of a finite result to an infinity, and the sign of a zero are not modelled (a zero
  divisor counts as \<open>+0\<close>).
\<close>

datatype cfloat = Fin real | PInf | NInf | NaN

fun fneg :: "cfloat \<Rightarrow> cfloat" where
  "fneg (Fin a) = Fin (- a)"
| "fneg PInf = NInf"
| "fneg NInf = PInf"
| "fneg NaN = NaN"

fun fadd :: "cfloat \<Rightarrow> cfloat \<Rightarrow> cfloat" where
  "fadd NaN _ = NaN"
| "fadd _ NaN = NaN"
| "fadd (Fin a) (Fin b) = Fin (a + b)"
| "fadd (Fin a) PInf = PInf"
| "fadd (Fin a) NInf = NInf"
| "fadd PInf (Fin b) = PInf"
| "fadd NInf (Fin b) = NInf"
| "fadd PInf PInf = PInf"
| "fadd NInf NInf = NInf"
| "fadd PInf NInf = NaN"
| "fadd NInf PInf = NaN"

definition fsub :: "cfloat \<Rightarrow> cfloat \<Rightarrow> cfloat" where
  "fsub a b = fadd a (fneg b)"

text \<open>An infinity of the sign of \<open>a\<close>, for \<open>a \<noteq> 0\<close>.\<close>

definition inf_signed :: "real \<Rightarrow> cfloat" where
  "inf_signed a = (if 0 < a then PInf else NInf)"

fun fmul :: "cfloat \<Rightarrow> cfloat \<Rightarrow> cfloat" where
  "fmul NaN _ = NaN"
| "fmul _ NaN = NaN"
| "fmul (Fin a) (Fin b) = Fin (a * b)"
| "fmul (Fin a) PInf = (if a = 0 then NaN else inf_signed a)"
| "fmul (Fin a) NInf = (if a = 0 then NaN else inf_signed (- a))"
| "fmul PInf (Fin b) = (if b = 0 then NaN else inf_signed b)"
| "fmul NInf (Fin b) = (if b = 0 then NaN else inf_signed (- b))"
| "fmul PInf PInf = PInf"
| "fmul NInf NInf = PInf"
| "fmul PInf NInf = NInf"
| "fmul NInf PInf = NInf"

fun fdiv :: "cfloat \<Rightarrow> cfloat \<Rightarrow> cfloat" where
  "fdiv NaN _ = NaN"
| "fdiv _ NaN = NaN"
| "fdiv (Fin a) (Fin b) =
     (if b = 0 then (if a = 0 then NaN else inf_signed a) else Fin (a / b))"
| "fdiv (Fin a) PInf = Fin 0"
| "fdiv (Fin a) NInf = Fin 0"
| "fdiv PInf (Fin b) = (if b < 0 then NInf else PInf)"
| "fdiv NInf (Fin b) = (if b < 0 then PInf else NInf)"
| "fdiv PInf PInf = NaN"
| "fdiv NInf NInf = NaN"
| "fdiv PInf NInf = NaN"
| "fdiv NInf PInf = NaN"

text \<open>Comparisons: every ordered comparison with a NaN is false, and \<open>!=\<close> is true.\<close>

fun flt :: "cfloat \<Rightarrow> cfloat \<Rightarrow> bool" where
  "flt NaN _ = False"
| "flt _ NaN = False"
| "flt (Fin a) (Fin b) = (a < b)"
| "flt (Fin a) PInf = True"
| "flt (Fin a) NInf = False"
| "flt PInf _ = False"
| "flt NInf (Fin b) = True"
| "flt NInf PInf = True"
| "flt NInf NInf = False"

definition fgt :: "cfloat \<Rightarrow> cfloat \<Rightarrow> bool" where
  "fgt a b = flt b a"

definition fne :: "cfloat \<Rightarrow> cfloat \<Rightarrow> bool" where
  "fne a b = (a = NaN \<or> b = NaN \<or> a \<noteq> b)"

subsection \<open>The functions of \<open>math.h\<close> the program calls\<close>

fun fabsf :: "cfloat \<Rightarrow> cfloat" where
  "fabsf (Fin a) = Fin \<bar>a\<bar>"
| "fabsf PInf = PInf"
| "fabsf NInf = PInf"
| "fabsf NaN = NaN"

fun sqrtf :: "cfloat \<Rightarrow> cfloat" where
  "sqrtf (Fin a) = (if a < 0 then NaN else Fin (sqrt a))"
| "sqrtf PInf = PInf"
| "sqrtf NInf = NaN"
| "sqrtf NaN = NaN"

fun cosf :: "cfloat \<Rightarrow> cfloat" where
  "cosf (Fin a) = Fin (cos a)"
| "cosf PInf = NaN"
| "cosf NInf = NaN"
| "cosf NaN = NaN"

fun asinf :: "cfloat \<Rightarrow> cfloat" where
  "asinf (Fin a) = (if a < - 1 \<or> 1 < a then NaN else Fin (arcsin a))"
| "asinf PInf = NaN"
| "asinf NInf = NaN"
| "asinf NaN = NaN"

text \<open>\<open>powf(a, 2)\<close>, the only use of \<open>powf\<close> in the program.\<close>

definition powf_2 :: "cfloat \<Rightarrow> cfloat" where
  "powf_2 a = fmul a a"

text \<open>\<open>atan2f(b, a)\<close>: the angle of the point \<open>(a, b)\<close>, in \<open>[-\<pi>, \<pi>]\<close>.\<close>

definition atan2_real :: "real \<Rightarrow> real \<Rightarrow> real" where
  "atan2_real b a =
     (if 0 < a then arctan (b / a)
      else if a < 0 then (if 0 \<le> b then arctan (b / a) + pi else arctan (b / a) - pi)
      else if 0 < b then pi / 2
      else if b < 0 then - (pi / 2)
      else 0)"

fun atan2f :: "cfloat \<Rightarrow> cfloat \<Rightarrow> cfloat" where
  "atan2f NaN _ = NaN"
| "atan2f _ NaN = NaN"
| "atan2f (Fin b) (Fin a) = Fin (atan2_real b a)"
| "atan2f (Fin b) PInf = Fin 0"
| "atan2f (Fin b) NInf = (if 0 \<le> b then Fin pi else Fin (- pi))"
| "atan2f PInf (Fin a) = Fin (pi / 2)"
| "atan2f NInf (Fin a) = Fin (- (pi / 2))"
| "atan2f PInf PInf = Fin (pi / 4)"
| "atan2f PInf NInf = Fin (3 * pi / 4)"
| "atan2f NInf PInf = Fin (- (pi / 4))"
| "atan2f NInf NInf = Fin (- (3 * pi / 4))"

text \<open>
  The conversion of an \<open>int\<close> to \<open>float\<close>, and the cast \<open>(int) a\<close>, which truncates
  towards zero. C leaves the cast undefined for a NaN, an infinity or a value outside
  the range of \<open>int\<close>; the model gives \<open>INT_MIN\<close> there, as the conversion instruction
  of x86-64 does.
\<close>

definition float_of_int :: "int \<Rightarrow> cfloat" where
  "float_of_int n = Fin (of_int n)"

definition INT_MIN :: int where
  "INT_MIN = - (2 ^ 31)"

fun int_of_float :: "cfloat \<Rightarrow> int" where
  "int_of_float (Fin a) =
     (if a \<le> - (2 ^ 31) - 1 \<or> 2 ^ 31 \<le> a then INT_MIN
      else if 0 \<le> a then \<lfloor>a\<rfloor> else \<lceil>a\<rceil>)"
| "int_of_float PInf = INT_MIN"
| "int_of_float NInf = INT_MIN"
| "int_of_float NaN = INT_MIN"

section \<open>Poses\<close>

record XrVector3f =
  vx :: cfloat
  vy :: cfloat
  vz :: cfloat

record XrQuaternionf =
  qx :: cfloat
  qy :: cfloat
  qz :: cfloat
  qw :: cfloat

record XrPosef =
  orientation :: XrQuaternionf
  position :: XrVector3f

section \<open>The projection: \<open>pose_to_pointer\<close>\<close>

text \<open>
  The C function writes through the pointers \<open>mouseX\<close> and \<open>mouseY\<close> and returns an
  \<open>int\<close>. The model takes the two stored values and returns the \<open>int\<close> with the two
  values as they are after the call.
\<close>

definition pose_to_pointer ::
  "XrPosef \<Rightarrow> cfloat \<Rightarrow> cfloat \<Rightarrow> cfloat \<Rightarrow> cfloat \<Rightarrow> cfloat \<Rightarrow> cfloat \<Rightarrow> cfloat
     \<Rightarrow> int \<times> cfloat \<times> cfloat" where
  "pose_to_pointer pose x0 x1 y0 y1 depth mouseX mouseY =
     (let normalDistance = fabsf (fsub (vz (position pose)) depth);
          poseAngleX = asinf (fmul (Fin (- 2))
            (fsub (fmul (qx (orientation pose)) (qz (orientation pose)))
                  (fmul (qw (orientation pose)) (qy (orientation pose)))));
          poseAngleY0 = atan2f
            (fmul (Fin 2)
              (fadd (fmul (qy (orientation pose)) (qz (orientation pose)))
                    (fmul (qw (orientation pose)) (qx (orientation pose)))))
            (fadd (fsub (fsub (fmul (qw (orientation pose)) (qw (orientation pose)))
                              (fmul (qx (orientation pose)) (qx (orientation pose))))
                        (fmul (qy (orientation pose)) (qy (orientation pose))))
                  (fmul (qz (orientation pose)) (qz (orientation pose))));
          poseAngleY = (if fgt poseAngleY0 (Fin 0) then fsub poseAngleY0 (Fin pi)
                        else fadd poseAngleY0 (Fin pi));
          offX0 = sqrtf (fsub (powf_2 (fdiv normalDistance (cosf poseAngleX)))
                              (fmul normalDistance normalDistance));
          offY0 = sqrtf (fsub (powf_2 (fdiv normalDistance (cosf poseAngleY)))
                              (fmul normalDistance normalDistance));
          offX = fmul offX0 (float_of_int
            ((if fgt poseAngleX (Fin 0) then 1 else 0) - (if flt poseAngleX (Fin 0) then 1 else 0)));
          offY = fmul offY0 (float_of_int
            ((if fgt poseAngleY (Fin 0) then 1 else 0) - (if flt poseAngleY (Fin 0) then 1 else 0)));
          resultX = fdiv (fsub (fsub (vx (position pose)) offX) x0) (fsub x1 x0);
          resultY = fdiv (fsub (fadd (vy (position pose)) offY) y0) (fsub y1 y0)
      in if flt resultX (Fin 0) \<or> fgt resultX (Fin 1) \<or> flt resultY (Fin 0) \<or> fgt resultY (Fin 1)
         then (0, mouseX, mouseY)
         else if fne resultX mouseX \<or> fne resultY mouseY
         then (1, resultX, resultY)
         else (0, mouseX, mouseY))"

section \<open>The polling loop of \<open>main\<close>\<close>

datatype calibration_state = RECORDING_TOPLEFT | RECORDING_BOTTOMRIGHT | PLAYING

text \<open>
  The results of the OpenXR calls the loop looks at: success, the two results it
  tolerates, and any other result.
\<close>

datatype XrResult = XR_SUCCESS | XR_SESSION_LOSS_PENDING | XR_SESSION_NOT_FOCUSED | XR_OTHER

record XrActionStateBoolean =
  currentState :: bool
  changedSinceLastSync :: bool

text \<open>An \<open>input_event\<close> as the program fills it: type, code and value.\<close>

datatype ev_type = EV_SYN | EV_KEY | EV_ABS

datatype ev_code = SYN_REPORT | BTN_LEFT | KEY_Z | KEY_C | ABS_X | ABS_Y

datatype input_event = Input_event ev_type ev_code int

definition SCREEN_WIDTH :: int where
  "SCREEN_WIDTH = 1920"

definition SCREEN_HEIGHT :: int where
  "SCREEN_HEIGHT = 1080"

text \<open>
  The variables of \<open>main\<close> that the loop reads and writes, and \<open>fd\<close>: the events written
  to the uinput device so far, oldest first.
\<close>

record locals =
  state :: calibration_state
  x0 :: cfloat
  x1 :: cfloat
  y0 :: cfloat
  y1 :: cfloat
  z :: cfloat
  run :: bool
  sync :: bool
  mouseX :: cfloat
  mouseY :: cfloat
  fd :: "input_event list"

text \<open>
  What one iteration receives from the runtime: the result of each call, in the order
  of the calls, and the values the calls fill in.
\<close>

record tick_input =
  xrSyncActions :: XrResult
  xrConvertTimespecTimeToTimeKHR :: XrResult
  xrLocateSpace :: XrResult
  aimState :: XrPosef
  xrGetFire :: XrResult
  fireState :: XrActionStateBoolean
  xrGetPedal :: XrResult
  pedalState :: XrActionStateBoolean
  xrGetPause :: XrResult
  pauseState :: XrActionStateBoolean

text \<open>
  \<open>float x0, x1, y0, y1, z;\<close> are declared without a value: the state before the first
  iteration takes their contents as parameters.
\<close>

definition initial :: "cfloat \<Rightarrow> cfloat \<Rightarrow> cfloat \<Rightarrow> cfloat \<Rightarrow> cfloat \<Rightarrow> locals" where
  "initial a0 a1 b0 b1 c =
     \<lparr>state = RECORDING_TOPLEFT, x0 = a0, x1 = a1, y0 = b0, y1 = b1, z = c,
      run = True, sync = False, mouseX = Fin 0, mouseY = Fin 0, fd = []\<rparr>"

definition write_fd :: "input_event \<Rightarrow> locals \<Rightarrow> locals" where
  "write_fd ie s = s\<lparr>fd := fd s @ [ie]\<rparr>"

text \<open>An \<open>XrBool32\<close> stored in \<open>ie.value\<close>.\<close>

definition bool32 :: "bool \<Rightarrow> int" where
  "bool32 b = (if b then 1 else 0)"

text \<open>The last branch of the loop body, taken when \<open>state\<close> is \<open>PLAYING\<close>.\<close>

definition playing :: "locals \<Rightarrow> tick_input \<Rightarrow> locals" where
  "playing s0 i =
     (let s = (if currentState (fireState i) \<and> currentState (pauseState i)
               then s0\<lparr>run := False\<rparr> else s0);
          s = (if changedSinceLastSync (fireState i)
               then (write_fd (Input_event EV_KEY BTN_LEFT (bool32 (currentState (fireState i)))) s)
                      \<lparr>sync := True\<rparr>
               else s);
          s = (if changedSinceLastSync (pedalState i)
               then (write_fd (Input_event EV_KEY KEY_Z (bool32 (currentState (pedalState i)))) s)
                      \<lparr>sync := True\<rparr>
               else s);
          s = (if changedSinceLastSync (pauseState i)
               then (write_fd (Input_event EV_KEY KEY_C (bool32 (currentState (pauseState i)))) s)
                      \<lparr>sync := True\<rparr>
               else s);
          (r, mX, mY) = pose_to_pointer (aimState i) (x0 s) (x1 s) (y0 s) (y1 s) (z s)
                          (mouseX s) (mouseY s);
          s = s\<lparr>mouseX := mX, mouseY := mY\<rparr>;
          s = (if r \<noteq> 0
               then (write_fd
                       (Input_event EV_ABS ABS_Y
                          (int_of_float (fmul (mouseY s) (float_of_int SCREEN_HEIGHT))))
                       (write_fd
                          (Input_event EV_ABS ABS_X
                             (int_of_float (fmul (mouseX s) (float_of_int SCREEN_WIDTH))))
                          s))
                      \<lparr>sync := True\<rparr>
               else s);
          s = (if sync s
               then (write_fd (Input_event EV_SYN SYN_REPORT 0) s)\<lparr>sync := False\<rparr>
               else s)
      in s)"

text \<open>
  One iteration of \<open>while (run)\<close>. \<open>CHECK_ERROR\<close> jumps to \<open>cleanup\<close> on any result
  but \<open>XR_SUCCESS\<close>, which ends the loop with the return code \<open>-8\<close>.
\<close>

datatype control = Continue | Cleanup

definition tick :: "locals \<Rightarrow> tick_input \<Rightarrow> control \<times> locals" where
  "tick s i =
     (if xrSyncActions i = XR_SUCCESS then
        (if xrConvertTimespecTimeToTimeKHR i \<noteq> XR_SUCCESS then (Cleanup, s)
         else if xrLocateSpace i \<noteq> XR_SUCCESS then (Cleanup, s)
         else if xrGetFire i \<noteq> XR_SUCCESS then (Cleanup, s)
         else if xrGetPedal i \<noteq> XR_SUCCESS then (Cleanup, s)
         else if xrGetPause i \<noteq> XR_SUCCESS then (Cleanup, s)
         else if state s = RECORDING_TOPLEFT then
           (if currentState (fireState i) \<and> changedSinceLastSync (fireState i)
            then (Continue, s\<lparr>x0 := vx (position (aimState i)),
                               y0 := vy (position (aimState i)),
                               z := vz (position (aimState i)),
                               state := RECORDING_BOTTOMRIGHT\<rparr>)
            else (Continue, s))
         else if state s = RECORDING_BOTTOMRIGHT then
           (if currentState (fireState i) \<and> changedSinceLastSync (fireState i)
            then (Continue, s\<lparr>x1 := vx (position (aimState i)),
                               y1 := vy (position (aimState i)),
                               z := (if flt (z s) (vz (position (aimState i))) then z s
                                     else vz (position (aimState i))),
                               state := PLAYING\<rparr>)
            else (Continue, s))
         else (Continue, playing s i))
      else if xrSyncActions i = XR_SESSION_LOSS_PENDING then (Continue, s\<lparr>run := False\<rparr>)
      else if xrSyncActions i \<noteq> XR_SESSION_NOT_FOCUSED then (Cleanup, s)
      else (Continue, s))"

text \<open>
  The loop over the iterations the runtime answers: the states at the loop test, from
  the first to the one the loop (or the list of answers) ends in.
\<close>

fun states_of :: "locals \<Rightarrow> tick_input list \<Rightarrow> locals list" where
  "states_of s [] = [s]"
| "states_of s (i # is) =
     (if run s
      then (case tick s i of
              (Continue, s') \<Rightarrow> s # states_of s' is
            | (Cleanup, s') \<Rightarrow> [s, s'])
      else [s])"

section \<open>Notions the properties are stated with\<close>

text \<open>
  The candidate \<open>(resultX, resultY)\<close> that \<open>pose_to_pointer\<close> computes before it
  decides what to do with it: the same computation, without the decision.
\<close>

definition candidate ::
  "XrPosef \<Rightarrow> cfloat \<Rightarrow> cfloat \<Rightarrow> cfloat \<Rightarrow> cfloat \<Rightarrow> cfloat \<Rightarrow> cfloat \<times> cfloat" where
  "candidate pose a0 a1 b0 b1 depth =
     (let normalDistance = fabsf (fsub (vz (position pose)) depth);
          poseAngleX = asinf (fmul (Fin (- 2))
            (fsub (fmul (qx (orientation pose)) (qz (orientation pose)))
                  (fmul (qw (orientation pose)) (qy (orientation pose)))));
          poseAngleY0 = atan2f
            (fmul (Fin 2)
              (fadd (fmul (qy (orientation pose)) (qz (orientation pose)))
                    (fmul (qw (orientation pose)) (qx (orientation pose)))))
            (fadd (fsub (fsub (fmul (qw (orientation pose)) (qw (orientation pose)))
                              (fmul (qx (orientation pose)) (qx (orientation pose))))
                        (fmul (qy (orientation pose)) (qy (orientation pose))))
                  (fmul (qz (orientation pose)) (qz (orientation pose))));
          poseAngleY = (if fgt poseAngleY0 (Fin 0) then fsub poseAngleY0 (Fin pi)
                        else fadd poseAngleY0 (Fin pi));
          offX0 = sqrtf (fsub (powf_2 (fdiv normalDistance (cosf poseAngleX)))
                              (fmul normalDistance normalDistance));
          offY0 = sqrtf (fsub (powf_2 (fdiv normalDistance (cosf poseAngleY)))
                              (fmul normalDistance normalDistance));
          offX = fmul offX0 (float_of_int
            ((if fgt poseAngleX (Fin 0) then 1 else 0) - (if flt poseAngleX (Fin 0) then 1 else 0)));
          offY = fmul offY0 (float_of_int
            ((if fgt poseAngleY (Fin 0) then 1 else 0) - (if flt poseAngleY (Fin 0) then 1 else 0)))
      in (fdiv (fsub (fsub (vx (position pose)) offX) a0) (fsub a1 a0),
          fdiv (fsub (fadd (vy (position pose)) offY) b0) (fsub b1 b0)))"

text \<open>A normalized coordinate: a number in \<open>[0, 1]\<close>.\<close>

definition in_range01 :: "cfloat \<Rightarrow> bool" where
  "in_range01 a = (case a of Fin r \<Rightarrow> 0 \<le> r \<and> r \<le> 1 | _ \<Rightarrow> False)"

text \<open>Every call of the iteration succeeds; a button's pressed edge.\<close>

definition all_succeed :: "tick_input \<Rightarrow> bool" where
  "all_succeed i =
     (xrSyncActions i = XR_SUCCESS \<and> xrConvertTimespecTimeToTimeKHR i = XR_SUCCESS \<and>
      xrLocateSpace i = XR_SUCCESS \<and> xrGetFire i = XR_SUCCESS \<and>
      xrGetPedal i = XR_SUCCESS \<and> xrGetPause i = XR_SUCCESS)"

definition pressed_edge :: "XrActionStateBoolean \<Rightarrow> bool" where
  "pressed_edge b = (currentState b \<and> changedSinceLastSync b)"

text \<open>
  The events written between two states of the loop, and the events one \<open>PLAYING\<close>
  iteration writes: a key event for each button that changed, then the two position
  events, then the report.
\<close>

definition written :: "locals \<Rightarrow> locals \<Rightarrow> input_event list" where
  "written s s' = drop (length (fd s)) (fd s')"

definition key_event :: "ev_code \<Rightarrow> XrActionStateBoolean \<Rightarrow> input_event list" where
  "key_event c b =
     (if changedSinceLastSync b then [Input_event EV_KEY c (bool32 (currentState b))] else [])"

definition key_events :: "tick_input \<Rightarrow> input_event list" where
  "key_events i =
     key_event BTN_LEFT (fireState i) @ key_event KEY_Z (pedalState i) @ key_event KEY_C (pauseState i)"

definition abs_events :: "cfloat \<Rightarrow> cfloat \<Rightarrow> input_event list" where
  "abs_events mX mY =
     [Input_event EV_ABS ABS_X (int_of_float (fmul mX (float_of_int SCREEN_WIDTH))),
      Input_event EV_ABS ABS_Y (int_of_float (fmul mY (float_of_int SCREEN_HEIGHT)))]"

definition syn_report :: input_event where
  "syn_report = Input_event EV_SYN SYN_REPORT 0"

fun is_barrier :: "input_event \<Rightarrow> bool" where
  "is_barrier (Input_event t c v) = (t = EV_SYN)"


text \<open>
  The calibration geometry, the order of the three states, and what one step of the
  loop may do to them: stay, with the geometry as it is, or move to the next state,
  with the other corner as it is. \<open>captures\<close> counts the steps of a run that change the
  state; these are the steps that write the geometry.
\<close>

definition geometry :: "locals \<Rightarrow> cfloat \<times> cfloat \<times> cfloat \<times> cfloat \<times> cfloat" where
  "geometry s = (x0 s, x1 s, y0 s, y1 s, z s)"


definition forward :: "locals \<Rightarrow> locals \<Rightarrow> bool" where
  "forward s s' =
     (case state s of
        RECORDING_TOPLEFT \<Rightarrow>
          state s' = RECORDING_TOPLEFT \<and> geometry s' = geometry s
          \<or> state s' = RECORDING_BOTTOMRIGHT \<and> x1 s' = x1 s \<and> y1 s' = y1 s
      | RECORDING_BOTTOMRIGHT \<Rightarrow>
          state s' = RECORDING_BOTTOMRIGHT \<and> geometry s' = geometry s
          \<or> state s' = PLAYING \<and> x0 s' = x0 s \<and> y0 s' = y0 s
      | PLAYING \<Rightarrow> state s' = PLAYING \<and> geometry s' = geometry s)"


subsection \<open>Concrete inputs\<close>

text \<open>
  A pose at \<open>(a, b, c)\<close> with the orientation \<open>(x, y, z, w) = (0, 0, 0, 1)\<close>, for which
  both offsets are zero: the ray meets the plane at \<open>(a, b)\<close>.
\<close>

definition straight_pose :: "real \<Rightarrow> real \<Rightarrow> real \<Rightarrow> XrPosef" where
  "straight_pose a b c =
     \<lparr>orientation = \<lparr>qx = Fin 0, qy = Fin 0, qz = Fin 0, qw = Fin 1\<rparr>,
      position = \<lparr>vx = Fin a, vy = Fin b, vz = Fin c\<rparr>\<rparr>"

definition button :: "bool \<Rightarrow> bool \<Rightarrow> XrActionStateBoolean" where
  "button cur chg = \<lparr>currentState = cur, changedSinceLastSync = chg\<rparr>"

text \<open>An iteration in which every call succeeds.\<close>

definition sample ::
  "XrPosef \<Rightarrow> XrActionStateBoolean \<Rightarrow> XrActionStateBoolean \<Rightarrow> XrActionStateBoolean
     \<Rightarrow> tick_input" where
  "sample p f pe pa =
     \<lparr>xrSyncActions = XR_SUCCESS, xrConvertTimespecTimeToTimeKHR = XR_SUCCESS,
      xrLocateSpace = XR_SUCCESS, aimState = p, xrGetFire = XR_SUCCESS, fireState = f,
      xrGetPedal = XR_SUCCESS, pedalState = pe, xrGetPause = XR_SUCCESS, pauseState = pa\<rparr>"

text \<open>The four states of a button: not pressed, just pressed, held, just released.\<close>

definition idle :: XrActionStateBoolean where
  "idle = button False False"

definition press :: XrActionStateBoolean where
  "press = button True True"

definition hold :: XrActionStateBoolean where
  "hold = button True False"

definition release :: XrActionStateBoolean where
  "release = button False True"

text \<open>
  The state right after a calibration with the corners \<open>(a0, b0)\<close> and \<open>(a1, b1)\<close> at
  depth \<open>c\<close>, before anything was written.
\<close>

definition calibrated :: "real \<Rightarrow> real \<Rightarrow> real \<Rightarrow> real \<Rightarrow> real \<Rightarrow> locals" where
  "calibrated a0 a1 b0 b1 c =
     \<lparr>state = PLAYING, x0 = Fin a0, x1 = Fin a1, y0 = Fin b0, y1 = Fin b1, z = Fin c,
      run = True, sync = False, mouseX = Fin 0, mouseY = Fin 0, fd = []\<rparr>"

text \<open>
  Two poses pitched by a right angle, so that the ray is parallel to the screen plane.
  The first has the orientation \<open>(x, y, z, w) = (0, q, 0, q)\<close>; a unit quaternion has
  \<open>q = \<surd>(1/2)\<close>, which no \<open>float\<close> is: the two nearest are \<open>11863283 / 2^24\<close> and
  \<open>11863284 / 2^24 = 2965821 / 4194304\<close>. The second has the orientation
  \<open>(1/2, 1/2, -1/2, 1/2)\<close>, an exact unit quaternion.
\<close>

definition pitched_pose :: "real \<Rightarrow> real \<Rightarrow> real \<Rightarrow> real \<Rightarrow> XrPosef" where
  "pitched_pose q a b c =
     \<lparr>orientation = \<lparr>qx = Fin 0, qy = Fin q, qz = Fin 0, qw = Fin q\<rparr>,
      position = \<lparr>vx = Fin a, vy = Fin b, vz = Fin c\<rparr>\<rparr>"

definition half_pose :: "real \<Rightarrow> real \<Rightarrow> real \<Rightarrow> XrPosef" where
  "half_pose a b c =
     \<lparr>orientation = \<lparr>qx = Fin (1 / 2), qy = Fin (1 / 2), qz = Fin (- (1 / 2)), qw = Fin (1 / 2)\<rparr>,
      position = \<lparr>vx = Fin a, vy = Fin b, vz = Fin c\<rparr>\<rparr>"

section \<open>Properties of the projection\<close>

lemma pose_to_pointer_candidate:
  "pose_to_pointer pose a0 a1 b0 b1 depth mx my =
     (case candidate pose a0 a1 b0 b1 depth of (u, v) \<Rightarrow>
        if flt u (Fin 0) \<or> fgt u (Fin 1) \<or> flt v (Fin 0) \<or> fgt v (Fin 1) then (0, mx, my)
        else if fne u mx \<or> fne v my then (1, u, v)
        else (0, mx, my))"
  by (simp add: pose_to_pointer_def candidate_def Let_def)

lemma in_range01_iff:
  "in_range01 a \<longleftrightarrow> a \<noteq> NaN \<and> \<not> flt a (Fin 0) \<and> \<not> fgt a (Fin 1)"
  by (cases a) (auto simp: in_range01_def fgt_def)

lemma candidate_straight:
  "candidate (straight_pose a b c) (Fin a0) (Fin a1) (Fin b0) (Fin b1) (Fin d) =
     (fdiv (Fin (a - a0)) (Fin (a1 - a0)), fdiv (Fin (b - b0)) (Fin (b1 - b0)))"
  by (simp add: candidate_def straight_pose_def Let_def fsub_def fgt_def powf_2_def
      atan2_real_def float_of_int_def)

lemma out_of_range_discarded:
  assumes "candidate pose a0 a1 b0 b1 d = (u, v)"
    and "flt u (Fin 0) \<or> fgt u (Fin 1) \<or> flt v (Fin 0) \<or> fgt v (Fin 1)"
  shows "pose_to_pointer pose a0 a1 b0 b1 d mx my = (0, mx, my)"
  using assms by (simp add: pose_to_pointer_candidate)


lemma candidate_pitched:
  "1 < 2 * q * q \<Longrightarrow> b1 \<noteq> b0 \<Longrightarrow>
   candidate (pitched_pose q a b c) (Fin a0) (Fin a1) (Fin b0) (Fin b1) (Fin d) =
     (NaN, Fin ((b - b0) / (b1 - b0)))"
  by (simp add: candidate_def pitched_pose_def Let_def fsub_def fgt_def powf_2_def
      atan2_real_def float_of_int_def)

lemma candidate_half:
  "b1 \<noteq> b0 \<Longrightarrow>
   candidate (half_pose a b c) (Fin a0) (Fin a1) (Fin b0) (Fin b1) (Fin c) =
     (NaN, Fin ((b - b0) / (b1 - b0)))"
  by (simp add: candidate_def half_pose_def Let_def fsub_def fgt_def powf_2_def
      atan2_real_def float_of_int_def)

lemma candidate_half_off_plane:
  "c \<noteq> d \<Longrightarrow>
   fst (candidate (half_pose a b c) (Fin a0) (Fin a1) (Fin b0) (Fin b1) (Fin d)) =
     (if a1 < a0 then PInf else NInf)"
  by (simp add: candidate_def half_pose_def Let_def fsub_def fgt_def powf_2_def
      atan2_real_def float_of_int_def inf_signed_def)

lemma right_angle_off_plane_discarded:
  "c \<noteq> d \<Longrightarrow>
   pose_to_pointer (half_pose a b c) (Fin a0) (Fin a1) (Fin b0) (Fin b1) (Fin d) mx my =
     (0, mx, my)"
  using candidate_half_off_plane [of c d a b a0 a1 b0 b1]
  by (cases "candidate (half_pose a b c) (Fin a0) (Fin a1) (Fin b0) (Fin b1) (Fin d)")
     (auto simp: pose_to_pointer_candidate fgt_def split: if_splits)

text \<open>
  Claim C3 fails on the code. The program has no test for a ray parallel to the plane;
  it relies on the range test, and no comparison with a NaN holds. For the pitched pose
  with \<open>q = 2965821 / 4194304\<close> the argument of \<open>asinf\<close> is \<open>2 q\<^sup>2 > 1\<close>, the angle and
  the candidate's first coordinate are NaN, and \<open>pose_to_pointer\<close> returns 1 and
  stores the NaN. For the exact right angle at distance 0 from the plane it returns 1 as
  well (the offset is \<open>0 / cos\<close>: a NaN for the cosine 0 of exact arithmetic, and 0 for
  the cosine of about \<open>-4.4e-8\<close> that \<open>cosf (asinf 1)\<close> is in \<open>float\<close>). Off the
  plane the exact right angle gives an infinite offset, which the range test rejects:
  \<open>right_angle_off_plane_discarded\<close>.
\<close>

theorem parallel_ray_not_discarded:
  "pose_to_pointer (pitched_pose (2965821 / 4194304) 0 0 3) (Fin (- 1)) (Fin 1) (Fin 1) (Fin (- 1))
      (Fin 5) (Fin (1 / 4)) (Fin (1 / 2)) = (1, NaN, Fin (1 / 2))
   \<and> fst (pose_to_pointer (half_pose 0 0 5) (Fin (- 1)) (Fin 1) (Fin 1) (Fin (- 1))
      (Fin 5) (Fin (1 / 4)) (Fin (1 / 2))) = 1"
  by (simp add: pose_to_pointer_candidate candidate_pitched candidate_half fgt_def fne_def)

text \<open>
  Claim C6. When a pose computes an in-range candidate \<open>(u, v)\<close> that differs from the
  stored pointer, \<open>pose_to_pointer\<close> stores it and returns 1; a following pose that
  computes the same candidate returns 0 and leaves the pointer as it is. Two identical
  consecutive poses give one emission.
\<close>

theorem same_candidate_emitted_once:
  assumes "candidate pose a0 a1 b0 b1 depth = (u, v)"
    and "candidate pose' a0 a1 b0 b1 depth = (u, v)"
    and "in_range01 u" and "in_range01 v"
    and "fne u mx \<or> fne v my"
  shows "pose_to_pointer pose a0 a1 b0 b1 depth mx my = (1, u, v)
       \<and> pose_to_pointer pose' a0 a1 b0 b1 depth u v = (0, u, v)"
  using assms by (auto simp: pose_to_pointer_candidate in_range01_iff fne_def)

theorem same_candidate_emitted_once_witness:
  "candidate (straight_pose 0 0 5) (Fin (- 1)) (Fin 1) (Fin 1) (Fin (- 1)) (Fin 5)
     = (Fin (1 / 2), Fin (1 / 2))
   \<and> in_range01 (Fin (1 / 2))
   \<and> fne (Fin (1 / 2)) (Fin 0)
   \<and> pose_to_pointer (straight_pose 0 0 5) (Fin (- 1)) (Fin 1) (Fin 1) (Fin (- 1)) (Fin 5)
       (Fin 0) (Fin 0) = (1, Fin (1 / 2), Fin (1 / 2))
   \<and> pose_to_pointer (straight_pose 0 0 5) (Fin (- 1)) (Fin 1) (Fin 1) (Fin (- 1)) (Fin 5)
       (Fin (1 / 2)) (Fin (1 / 2)) = (0, Fin (1 / 2), Fin (1 / 2))"
  using same_candidate_emitted_once [of "straight_pose 0 0 5" "Fin (- 1)" "Fin 1" "Fin 1"
      "Fin (- 1)" "Fin 5" "Fin (1 / 2)" "Fin (1 / 2)" "straight_pose 0 0 5" "Fin 0" "Fin 0"]
  by (simp add: candidate_straight in_range01_def fne_def)

section \<open>Properties of the calibration\<close>

text \<open>
  Claim C2. From the first-corner state, an iteration with a pressed edge of \<open>fire\<close>
  stores the pose's \<open>x\<close>, \<open>y\<close> and \<open>z\<close> in \<open>x0\<close>, \<open>y0\<close> and \<open>z\<close> and moves to the
  second-corner state; there, an iteration with a pressed edge stores the pose's \<open>x\<close> and
  \<open>y\<close> in \<open>x1\<close> and \<open>y1\<close>, sets \<open>z\<close> to the smaller of the two depths and moves to
  \<open>PLAYING\<close>. An iteration in which \<open>fire\<close> is held without an edge changes nothing in
  either recording state.
\<close>

theorem calibration_sequencing:
  assumes "state s = RECORDING_TOPLEFT"
    and "all_succeed i1" and "pressed_edge (fireState i1)"
    and "all_succeed i2" and "pressed_edge (fireState i2)"
    and "vz (position (aimState i1)) = Fin c1" and "vz (position (aimState i2)) = Fin c2"
    and "all_succeed h" and "currentState (fireState h)"
    and "\<not> changedSinceLastSync (fireState h)"
  shows "tick s i1 =
           (Continue, s\<lparr>x0 := vx (position (aimState i1)), y0 := vy (position (aimState i1)),
                        z := Fin c1, state := RECORDING_BOTTOMRIGHT\<rparr>)
       \<and> tick (s\<lparr>x0 := vx (position (aimState i1)), y0 := vy (position (aimState i1)),
                  z := Fin c1, state := RECORDING_BOTTOMRIGHT\<rparr>) i2 =
           (Continue, s\<lparr>x0 := vx (position (aimState i1)), y0 := vy (position (aimState i1)),
                        x1 := vx (position (aimState i2)), y1 := vy (position (aimState i2)),
                        z := Fin (min c1 c2), state := PLAYING\<rparr>)
       \<and> tick s h = (Continue, s)
       \<and> tick (s\<lparr>x0 := vx (position (aimState i1)), y0 := vy (position (aimState i1)),
                  z := Fin c1, state := RECORDING_BOTTOMRIGHT\<rparr>) h =
           (Continue, s\<lparr>x0 := vx (position (aimState i1)), y0 := vy (position (aimState i1)),
                        z := Fin c1, state := RECORDING_BOTTOMRIGHT\<rparr>)"
  using assms by (simp add: tick_def all_succeed_def pressed_edge_def min_def)

theorem calibration_sequencing_witness:
  "tick (initial NaN NaN NaN NaN NaN)
       (sample (straight_pose (- 1) 1 5) (button True True) (button False False)
          (button False False)) =
     (Continue, (initial NaN NaN NaN NaN NaN)
        \<lparr>x0 := Fin (- 1), y0 := Fin 1, z := Fin 5, state := RECORDING_BOTTOMRIGHT\<rparr>)
   \<and> tick ((initial NaN NaN NaN NaN NaN)
        \<lparr>x0 := Fin (- 1), y0 := Fin 1, z := Fin 5, state := RECORDING_BOTTOMRIGHT\<rparr>)
       (sample (straight_pose 1 (- 1) 6) (button True True) (button False False)
          (button False False)) =
     (Continue, (initial NaN NaN NaN NaN NaN)
        \<lparr>x0 := Fin (- 1), y0 := Fin 1, x1 := Fin 1, y1 := Fin (- 1), z := Fin 5,
         state := PLAYING\<rparr>)
   \<and> tick (initial NaN NaN NaN NaN NaN)
       (sample (straight_pose 0 0 5) (button True False) (button False False)
          (button False False)) =
     (Continue, initial NaN NaN NaN NaN NaN)"
  using calibration_sequencing [of "initial NaN NaN NaN NaN NaN"
      "sample (straight_pose (- 1) 1 5) (button True True) (button False False)
         (button False False)"
      "sample (straight_pose 1 (- 1) 6) (button True True) (button False False)
         (button False False)"
      5 6
      "sample (straight_pose 0 0 5) (button True False) (button False False)
         (button False False)"]
  by (simp add: initial_def sample_def button_def straight_pose_def all_succeed_def
      pressed_edge_def)

lemma states_of_calibration:
  "states_of (initial g0 g1 g2 g3 g4)
      [sample (straight_pose a0 b0 c) press idle idle,
       sample (straight_pose a0 b0 c) release idle idle,
       sample (straight_pose a1 b1 c) press idle idle] =
     [initial g0 g1 g2 g3 g4,
      (initial g0 g1 g2 g3 g4)
        \<lparr>x0 := Fin a0, y0 := Fin b0, z := Fin c, state := RECORDING_BOTTOMRIGHT\<rparr>,
      (initial g0 g1 g2 g3 g4)
        \<lparr>x0 := Fin a0, y0 := Fin b0, z := Fin c, state := RECORDING_BOTTOMRIGHT\<rparr>,
      calibrated a0 a1 b0 b1 c]"
  by (simp add: tick_def initial_def calibrated_def sample_def button_def idle_def press_def
      release_def straight_pose_def)

lemma calibrated_reachable:
  "calibrated a0 a1 b0 b1 c \<in> set (states_of (initial NaN NaN NaN NaN NaN)
      [sample (straight_pose a0 b0 c) press idle idle,
       sample (straight_pose a0 b0 c) release idle idle,
       sample (straight_pose a1 b1 c) press idle idle])"
  unfolding states_of_calibration by simp

lemma fdiv_by_difference_of_equals: "fdiv n (fsub a a) \<noteq> Fin r"
  by (cases n; cases a) (simp_all add: fsub_def inf_signed_def)

text \<open>
  Claim C4, as the program has it. The second capture compares nothing: whatever the
  pose, also one that makes \<open>x1 = x0\<close> or \<open>y1 = y0\<close>, the iteration goes on to
  \<open>PLAYING\<close> with \<open>run\<close> as it was and nothing written. With \<open>x1 = x0\<close> (or
  \<open>y1 = y0\<close>) the projection divides by zero, and its candidate on that axis is an
  infinity or a NaN, never a number.
\<close>

theorem degenerate_rectangle_accepted:
  assumes "state s = RECORDING_BOTTOMRIGHT" and "all_succeed i" and "pressed_edge (fireState i)"
  shows "fst (tick s i) = Continue \<and> state (snd (tick s i)) = PLAYING
       \<and> run (snd (tick s i)) = run s \<and> fd (snd (tick s i)) = fd s
       \<and> x0 (snd (tick s i)) = x0 s \<and> y0 (snd (tick s i)) = y0 s
       \<and> x1 (snd (tick s i)) = vx (position (aimState i))
       \<and> y1 (snd (tick s i)) = vy (position (aimState i))
       \<and> fst (candidate pose a a b0 b1 d) \<noteq> Fin r
       \<and> snd (candidate pose a0 a1 b b d) \<noteq> Fin r"
  using assms
  by (simp add: tick_def all_succeed_def pressed_edge_def candidate_def Let_def
      fdiv_by_difference_of_equals)

theorem degenerate_rectangle_accepted_witness:
  "state ((initial NaN NaN NaN NaN NaN)
      \<lparr>x0 := Fin 1, y0 := Fin 1, z := Fin 5, state := RECORDING_BOTTOMRIGHT\<rparr>)
     = RECORDING_BOTTOMRIGHT
   \<and> all_succeed (sample (straight_pose 1 1 5) press idle idle)
   \<and> pressed_edge (fireState (sample (straight_pose 1 1 5) press idle idle))
   \<and> tick ((initial NaN NaN NaN NaN NaN)
        \<lparr>x0 := Fin 1, y0 := Fin 1, z := Fin 5, state := RECORDING_BOTTOMRIGHT\<rparr>)
        (sample (straight_pose 1 1 5) press idle idle) = (Continue, calibrated 1 1 1 1 5)
   \<and> state (calibrated 1 1 1 1 5) = PLAYING \<and> run (calibrated 1 1 1 1 5)
   \<and> fst (candidate (straight_pose 1 1 5) (Fin 1) (Fin 1) (Fin 1) (Fin 1) (Fin 5)) \<noteq> Fin 0
   \<and> candidate (straight_pose 1 1 5) (Fin 1) (Fin 1) (Fin 1) (Fin 1) (Fin 5) = (NaN, NaN)
   \<and> candidate (straight_pose 2 0 5) (Fin 1) (Fin 1) (Fin 1) (Fin 1) (Fin 5) = (PInf, NInf)"
proof -
  let ?s = "(initial NaN NaN NaN NaN NaN)
      \<lparr>x0 := Fin 1, y0 := Fin 1, z := Fin 5, state := RECORDING_BOTTOMRIGHT\<rparr>"
  let ?i = "sample (straight_pose 1 1 5) press idle idle"
  have h1: "state ?s = RECORDING_BOTTOMRIGHT" by simp
  have h2: "all_succeed ?i" by (simp add: all_succeed_def sample_def)
  have h3: "pressed_edge (fireState ?i)"
    by (simp add: pressed_edge_def sample_def press_def button_def)
  have t: "tick ?s ?i = (Continue, calibrated 1 1 1 1 5)"
    by (simp add: tick_def initial_def calibrated_def sample_def button_def idle_def press_def
        straight_pose_def)
  have c: "candidate (straight_pose 1 1 5) (Fin 1) (Fin 1) (Fin 1) (Fin 1) (Fin 5) = (NaN, NaN)"
      "candidate (straight_pose 2 0 5) (Fin 1) (Fin 1) (Fin 1) (Fin 1) (Fin 5) = (PInf, NInf)"
    by (simp_all add: candidate_straight inf_signed_def)
  from degenerate_rectangle_accepted [OF h1 h2 h3,
      of "straight_pose 1 1 5" "Fin 1" "Fin 1" "Fin 1" "Fin 5" 0]
  have "state (snd (tick ?s ?i)) = PLAYING \<and> run (snd (tick ?s ?i)) = run ?s
      \<and> fst (candidate (straight_pose 1 1 5) (Fin 1) (Fin 1) (Fin 1) (Fin 1) (Fin 5)) \<noteq> Fin 0"
    by blast
  then have "state (calibrated 1 1 1 1 5) = PLAYING \<and> run (calibrated 1 1 1 1 5)
      \<and> fst (candidate (straight_pose 1 1 5) (Fin 1) (Fin 1) (Fin 1) (Fin 1) (Fin 5)) \<noteq> Fin 0"
    unfolding t by (simp add: initial_def)
  with h1 h2 h3 t c show ?thesis by blast
qed

text \<open>
  Claim C4, as stated, fails: two captures at the same pose end in \<open>PLAYING\<close>, still
  running, with \<open>x1 = x0\<close> and \<open>y1 = y0\<close>.
\<close>

theorem degenerate_rectangle_reaches_playing:
  "last (states_of (initial NaN NaN NaN NaN NaN)
      [sample (straight_pose 1 1 5) press idle idle,
       sample (straight_pose 1 1 5) release idle idle,
       sample (straight_pose 1 1 5) press idle idle]) = calibrated 1 1 1 1 5
   \<and> state (calibrated 1 1 1 1 5) = PLAYING \<and> run (calibrated 1 1 1 1 5)
   \<and> x1 (calibrated 1 1 1 1 5) = x0 (calibrated 1 1 1 1 5)
   \<and> y1 (calibrated 1 1 1 1 5) = y0 (calibrated 1 1 1 1 5)"
  by (simp add: tick_def initial_def calibrated_def sample_def button_def idle_def press_def
      release_def straight_pose_def)

section \<open>Properties of the \<open>PLAYING\<close> iteration\<close>

lemma playing_eq:
  "playing s i =
     (case pose_to_pointer (aimState i) (x0 s) (x1 s) (y0 s) (y1 s) (z s) (mouseX s) (mouseY s) of
        (r, mX, mY) \<Rightarrow>
          s\<lparr>run := run s \<and> \<not> (currentState (fireState i) \<and> currentState (pauseState i)),
            sync := False, mouseX := mX, mouseY := mY,
            fd := fd s @ key_events i @ (if r \<noteq> 0 then abs_events mX mY else [])
                    @ (if sync s \<or> key_events i \<noteq> [] \<or> r \<noteq> 0 then [syn_report] else [])\<rparr>)"
  by (simp add: playing_def Let_def write_fd_def key_events_def key_event_def abs_events_def
      syn_report_def split: prod.splits)

lemma tick_playing:
  "state s = PLAYING \<Longrightarrow> all_succeed i \<Longrightarrow> tick s i = (Continue, playing s i)"
  by (simp add: tick_def all_succeed_def)

lemma run_playing:
  "run (playing s i) = (run s \<and> \<not> (currentState (fireState i) \<and> currentState (pauseState i)))"
  by (simp add: playing_def Let_def write_fd_def split: prod.splits)

text \<open>
  Claim C5, as the program has it. In an iteration whose calls succeed and in which
  \<open>fire\<close> and \<open>pause\<close> are both down, whatever the edge flags are: in \<open>PLAYING\<close>
  the iteration ends with \<open>run\<close> false; in the two recording states \<open>run\<close> is left as
  it is.
\<close>

theorem quit_while_playing:
  assumes "all_succeed i" and "currentState (fireState i)" and "currentState (pauseState i)"
  shows "fst (tick s i) = Continue
       \<and> (state s = PLAYING \<longrightarrow> \<not> run (snd (tick s i)))
       \<and> (state s \<noteq> PLAYING \<longrightarrow> run (snd (tick s i)) = run s)"
proof (cases "state s = PLAYING")
  case True
  with assms show ?thesis by (simp add: tick_playing run_playing)
next
  case False
  then have "state s = RECORDING_TOPLEFT \<or> state s = RECORDING_BOTTOMRIGHT"
    by (cases "state s") simp_all
  with assms show ?thesis by (auto simp: tick_def all_succeed_def)
qed

theorem quit_while_playing_witness:
  "all_succeed (sample (straight_pose 0 0 5) hold idle hold)
   \<and> currentState (fireState (sample (straight_pose 0 0 5) hold idle hold))
   \<and> currentState (pauseState (sample (straight_pose 0 0 5) hold idle hold))
   \<and> state (calibrated (- 1) 1 1 (- 1) 5) = PLAYING \<and> run (calibrated (- 1) 1 1 (- 1) 5)
   \<and> \<not> run (snd (tick (calibrated (- 1) 1 1 (- 1) 5)
                   (sample (straight_pose 0 0 5) hold idle hold)))"
proof -
  let ?s = "calibrated (- 1) 1 1 (- 1) 5"
  let ?i = "sample (straight_pose 0 0 5) hold idle hold"
  have h1: "all_succeed ?i" by (simp add: all_succeed_def sample_def)
  have h2: "currentState (fireState ?i)" "currentState (pauseState ?i)"
    by (simp_all add: sample_def hold_def button_def)
  have h3: "state ?s = PLAYING" "run ?s" by (simp_all add: calibrated_def)
  from quit_while_playing [OF h1 h2, of ?s] h3(1)
  have "\<not> run (snd (tick ?s ?i))" by blast
  with h1 h2 h3 show ?thesis by blast
qed

text \<open>
  Claim C5, as stated, fails in the two recording states: the test of \<open>fire\<close> and
  \<open>pause\<close> stands in the \<open>PLAYING\<close> branch only, and \<open>run\<close> stays true.
\<close>

theorem quit_ignored_while_recording:
  "state (initial NaN NaN NaN NaN NaN) = RECORDING_TOPLEFT
   \<and> currentState (fireState (sample (straight_pose 0 0 5) hold idle hold))
   \<and> currentState (pauseState (sample (straight_pose 0 0 5) hold idle hold))
   \<and> run (snd (tick (initial NaN NaN NaN NaN NaN) (sample (straight_pose 0 0 5) hold idle hold)))
   \<and> run (snd (tick (initial NaN NaN NaN NaN NaN) (sample (straight_pose 0 0 5) press idle press)))
   \<and> run (snd (tick ((initial NaN NaN NaN NaN NaN)\<lparr>state := RECORDING_BOTTOMRIGHT\<rparr>)
                  (sample (straight_pose 0 0 5) press idle press)))"
  by (simp add: tick_def initial_def sample_def button_def idle_def hold_def press_def)

lemma tick_not_sync: "\<not> sync s \<Longrightarrow> \<not> sync (snd (tick s i))"
  by (simp add: tick_def playing_eq split: prod.splits)

lemma states_of_not_sync: "s \<in> set (states_of s0 is) \<Longrightarrow> \<not> sync s0 \<Longrightarrow> \<not> sync s"
proof (induction "is" arbitrary: s0)
  case Nil
  then show ?case by simp
next
  case (Cons i "is")
  show ?case
  proof (cases "run s0")
    case False
    with Cons.prems show ?thesis by simp
  next
    case True
    obtain c s' where t: "tick s0 i = (c, s')" by (cases "tick s0 i")
    from Cons.prems(2) have ns: "\<not> sync s'" using tick_not_sync [of s0 i] t by simp
    show ?thesis
    proof (cases c)
      case Continue
      with True t Cons.prems(1) have "s = s0 \<or> s \<in> set (states_of s' is)" by simp
      then show ?thesis using Cons.IH [OF _ ns] Cons.prems(2) by blast
    next
      case Cleanup
      with True t Cons.prems(1) have "s = s0 \<or> s = s'" by simp
      then show ?thesis using ns Cons.prems(2) by blast
    qed
  qed
qed

lemma key_event_cases:
  "e \<in> set (key_event c b) \<Longrightarrow> \<not> is_barrier e"
  by (auto simp: key_event_def split: if_splits)

lemma key_events_no_barrier: "e \<in> set (key_events i) \<Longrightarrow> \<not> is_barrier e"
  by (auto simp: key_events_def dest: key_event_cases)

lemma abs_events_no_barrier: "e \<in> set (abs_events a b) \<Longrightarrow> \<not> is_barrier e"
  by (auto simp: abs_events_def)

lemma abs_events_not_Nil: "abs_events a b \<noteq> []"
  by (simp add: abs_events_def)

lemma written_tick:
  assumes "state s = PLAYING" and "\<not> sync s"
  shows "written s (snd (tick s i)) =
     (if all_succeed i then
        (case pose_to_pointer (aimState i) (x0 s) (x1 s) (y0 s) (y1 s) (z s) (mouseX s) (mouseY s) of
          (r, mX, mY) \<Rightarrow> key_events i @ (if r \<noteq> 0 then abs_events mX mY else [])
                    @ (if key_events i \<noteq> [] \<or> r \<noteq> 0 then [syn_report] else []))
      else [])"
  using assms
  by (auto simp: tick_def all_succeed_def playing_eq written_def split: prod.splits)

lemma fd_tick_extends: "fd (snd (tick s i)) = fd s @ written s (snd (tick s i))"
  by (simp add: tick_def playing_eq written_def split: prod.splits)

text \<open>
  Claim C9. In a \<open>PLAYING\<close> state the loop reaches, the events one iteration writes are
  either none, or at least one key or position event followed by exactly one
  \<open>EV_SYN\<close> report. A pressed edge of the pedal with no other change writes the
  \<open>KEY_Z\<close> press and the report, and no position event.
\<close>

theorem one_barrier_per_batch:
  assumes "s \<in> set (states_of (initial a0 a1 b0 b1 c) is)" and "state s = PLAYING"
  shows "fd (snd (tick s i)) = fd s @ written s (snd (tick s i))
       \<and> (written s (snd (tick s i)) = []
          \<or> butlast (written s (snd (tick s i))) \<noteq> []
            \<and> last (written s (snd (tick s i))) = syn_report
            \<and> list_all (\<lambda>e. \<not> is_barrier e) (butlast (written s (snd (tick s i)))))
       \<and> (all_succeed i \<and> pressed_edge (pedalState i)
             \<and> \<not> changedSinceLastSync (fireState i) \<and> \<not> changedSinceLastSync (pauseState i)
             \<and> fst (pose_to_pointer (aimState i) (x0 s) (x1 s) (y0 s) (y1 s) (z s)
                      (mouseX s) (mouseY s)) = 0
           \<longrightarrow> written s (snd (tick s i)) = [Input_event EV_KEY KEY_Z 1, syn_report])"
proof -
  have ns: "\<not> sync s"
    using states_of_not_sync [OF assms(1)] by (simp add: initial_def)
  note w = written_tick [OF assms(2) ns, of i]
  have batch: "written s (snd (tick s i)) = []
          \<or> butlast (written s (snd (tick s i))) \<noteq> []
            \<and> last (written s (snd (tick s i))) = syn_report
            \<and> list_all (\<lambda>e. \<not> is_barrier e) (butlast (written s (snd (tick s i))))"
    unfolding w
    by (auto simp: butlast_append list_all_iff abs_events_not_Nil split: prod.splits
        dest: key_events_no_barrier abs_events_no_barrier)
  have pedal: "all_succeed i \<Longrightarrow> pressed_edge (pedalState i)
      \<Longrightarrow> \<not> changedSinceLastSync (fireState i) \<Longrightarrow> \<not> changedSinceLastSync (pauseState i)
      \<Longrightarrow> fst (pose_to_pointer (aimState i) (x0 s) (x1 s) (y0 s) (y1 s) (z s)
                      (mouseX s) (mouseY s)) = 0
      \<Longrightarrow> written s (snd (tick s i)) = [Input_event EV_KEY KEY_Z 1, syn_report]"
    unfolding w
    by (auto simp: key_events_def key_event_def pressed_edge_def bool32_def split: prod.splits)
  show ?thesis using fd_tick_extends batch pedal by auto
qed

theorem one_barrier_per_batch_witness:
  "calibrated (- 1) 1 1 (- 1) 5 \<in> set (states_of (initial NaN NaN NaN NaN NaN)
      [sample (straight_pose (- 1) 1 5) press idle idle,
       sample (straight_pose (- 1) 1 5) release idle idle,
       sample (straight_pose 1 (- 1) 5) press idle idle])
   \<and> state (calibrated (- 1) 1 1 (- 1) 5) = PLAYING
   \<and> all_succeed (sample (straight_pose 7 0 5) idle press idle)
   \<and> pressed_edge (pedalState (sample (straight_pose 7 0 5) idle press idle))
   \<and> fst (pose_to_pointer (straight_pose 7 0 5) (Fin (- 1)) (Fin 1) (Fin 1) (Fin (- 1)) (Fin 5)
        (Fin 0) (Fin 0)) = 0
   \<and> written (calibrated (- 1) 1 1 (- 1) 5)
       (snd (tick (calibrated (- 1) 1 1 (- 1) 5) (sample (straight_pose 7 0 5) idle press idle)))
     = [Input_event EV_KEY KEY_Z 1, syn_report]"
proof -
  let ?s = "calibrated (- 1) 1 1 (- 1) 5"
  let ?i = "sample (straight_pose 7 0 5) idle press idle"
  have h1: "?s \<in> set (states_of (initial NaN NaN NaN NaN NaN)
      [sample (straight_pose (- 1) 1 5) press idle idle,
       sample (straight_pose (- 1) 1 5) release idle idle,
       sample (straight_pose 1 (- 1) 5) press idle idle])"
    by (rule calibrated_reachable)
  have h2: "state ?s = PLAYING" by (simp add: calibrated_def)
  have h3: "all_succeed ?i" by (simp add: all_succeed_def sample_def)
  have h4: "pressed_edge (pedalState ?i)"
    by (simp add: pressed_edge_def sample_def press_def button_def)
  have h5: "\<not> changedSinceLastSync (fireState ?i) \<and> \<not> changedSinceLastSync (pauseState ?i)"
    by (simp add: sample_def idle_def button_def)
  have p: "fst (pose_to_pointer (straight_pose 7 0 5) (Fin (- 1)) (Fin 1) (Fin 1) (Fin (- 1))
        (Fin 5) (Fin 0) (Fin 0)) = 0"
    by (simp add: pose_to_pointer_candidate candidate_straight fgt_def)
  have h6: "fst (pose_to_pointer (aimState ?i) (x0 ?s) (x1 ?s) (y0 ?s) (y1 ?s) (z ?s)
        (mouseX ?s) (mouseY ?s)) = 0"
    using p by (simp add: calibrated_def sample_def)
  from one_barrier_per_batch [OF h1 h2, of ?i] h3 h4 h5 h6
  have "written ?s (snd (tick ?s ?i)) = [Input_event EV_KEY KEY_Z 1, syn_report]"
    by presburger
  with h1 h2 h3 h4 p show ?thesis by blast
qed






section \<open>Properties of whole runs\<close>

lemma states_of_not_Nil: "states_of s is \<noteq> []"
  by (cases "is") (simp_all split: prod.splits control.splits)

lemma last_states_of_Continue:
  "run s \<Longrightarrow> tick s i = (Continue, s') \<Longrightarrow> last (states_of s (i # is)) = last (states_of s' is)"
  by (simp add: states_of_not_Nil)

lemma last_states_of_calibration:
  "last (states_of (initial g0 g1 g2 g3 g4)
      (sample (straight_pose a0 b0 c) press idle idle #
       sample (straight_pose a0 b0 c) release idle idle #
       sample (straight_pose a1 b1 c) press idle idle # is))
   = last (states_of (calibrated a0 a1 b0 b1 c) is)"
proof -
  let ?s1 = "(initial g0 g1 g2 g3 g4)
        \<lparr>x0 := Fin a0, y0 := Fin b0, z := Fin c, state := RECORDING_BOTTOMRIGHT\<rparr>"
  have t1: "tick (initial g0 g1 g2 g3 g4) (sample (straight_pose a0 b0 c) press idle idle)
      = (Continue, ?s1)"
    by (simp add: tick_def initial_def sample_def button_def press_def straight_pose_def)
  have t2: "tick ?s1 (sample (straight_pose a0 b0 c) release idle idle) = (Continue, ?s1)"
    by (simp add: tick_def initial_def sample_def button_def release_def)
  have t3: "tick ?s1 (sample (straight_pose a1 b1 c) press idle idle)
      = (Continue, calibrated a0 a1 b0 b1 c)"
    by (simp add: tick_def initial_def calibrated_def sample_def button_def press_def
        straight_pose_def)
  have r: "run (initial g0 g1 g2 g3 g4)" "run ?s1"
    by (simp_all add: initial_def)
  show ?thesis
    by (simp only: last_states_of_Continue [OF r(1) t1] last_states_of_Continue [OF r(2) t2]
        last_states_of_Continue [OF r(2) t3])
qed

text \<open>
  Claim C1 fails on the code. The range test lets a NaN through, since no comparison
  with a NaN holds, and \<open>!=\<close> holds for it: after a calibration with the corners
  \<open>(-1, 1)\<close> and \<open>(1, -1)\<close> at depth 5, the pitched pose with
  \<open>q = 2965821 / 4194304\<close> makes \<open>pose_to_pointer\<close> store a NaN in \<open>mouseX\<close>, which
  is no coordinate in \<open>[0, 1]\<close>, and the iteration writes position events for it. (The
  other half of the claim holds: see \<open>out_of_range_discarded\<close>.)
\<close>

theorem nan_written_to_pointer:
  "last (states_of (initial NaN NaN NaN NaN NaN)
      [sample (straight_pose (- 1) 1 5) press idle idle,
       sample (straight_pose (- 1) 1 5) release idle idle,
       sample (straight_pose 1 (- 1) 5) press idle idle,
       sample (pitched_pose (2965821 / 4194304) 0 0 3) hold idle idle])
     = (calibrated (- 1) 1 1 (- 1) 5)
         \<lparr>mouseX := NaN, mouseY := Fin (1 / 2),
          fd := [Input_event EV_ABS ABS_X INT_MIN, Input_event EV_ABS ABS_Y 540, syn_report]\<rparr>
   \<and> \<not> in_range01 NaN"
proof -
  let ?s = "calibrated (- 1) 1 1 (- 1) 5"
  let ?i = "sample (pitched_pose (2965821 / 4194304) 0 0 3) hold idle idle"
  have p: "pose_to_pointer (aimState ?i) (x0 ?s) (x1 ?s) (y0 ?s) (y1 ?s) (z ?s)
        (mouseX ?s) (mouseY ?s) = (1, NaN, Fin (1 / 2))"
    by (simp add: calibrated_def sample_def pose_to_pointer_candidate candidate_pitched
        fgt_def fne_def)
  have k: "key_events ?i = []"
    by (simp add: key_events_def key_event_def sample_def idle_def hold_def button_def)
  have a: "abs_events NaN (Fin (1 / 2)) =
      [Input_event EV_ABS ABS_X INT_MIN, Input_event EV_ABS ABS_Y 540]"
    by (simp add: abs_events_def SCREEN_HEIGHT_def float_of_int_def)
  have t: "tick ?s ?i = (Continue, playing ?s ?i)"
    by (rule tick_playing) (simp_all add: calibrated_def all_succeed_def sample_def)
  have pl: "playing ?s ?i = ?s\<lparr>mouseX := NaN, mouseY := Fin (1 / 2),
          fd := [Input_event EV_ABS ABS_X INT_MIN, Input_event EV_ABS ABS_Y 540, syn_report]\<rparr>"
    by (simp add: playing_eq p k a) (simp add: calibrated_def sample_def idle_def button_def)
  have l: "last (states_of ?s [?i]) = playing ?s ?i"
    using t by (simp add: calibrated_def)
  show ?thesis
    by (simp only: last_states_of_calibration l pl) (simp add: in_range01_def)
qed

text \<open>
  Claim C10, as the program has it. The pointer starts as \<open>(0, 0)\<close>, which is a
  normalized coordinate and no sentinel. An in-range candidate is stored and reported
  by the first projection unless it is \<open>(0, 0)\<close>; then nothing is reported.
\<close>

theorem first_candidate_emitted_unless_origin:
  assumes "candidate pose a0 a1 b0 b1 d = (u, v)" and "in_range01 u" and "in_range01 v"
  shows "mouseX (initial g0 g1 g2 g3 g4) = Fin 0 \<and> mouseY (initial g0 g1 g2 g3 g4) = Fin 0
       \<and> pose_to_pointer pose a0 a1 b0 b1 d
           (mouseX (initial g0 g1 g2 g3 g4)) (mouseY (initial g0 g1 g2 g3 g4))
         = (if u = Fin 0 \<and> v = Fin 0 then (0, Fin 0, Fin 0) else (1, u, v))"
  using assms by (auto simp: initial_def pose_to_pointer_candidate in_range01_iff fne_def)

theorem first_candidate_emitted_unless_origin_witness:
  "candidate (straight_pose 0 0 5) (Fin (- 1)) (Fin 1) (Fin 1) (Fin (- 1)) (Fin 5)
     = (Fin (1 / 2), Fin (1 / 2))
   \<and> in_range01 (Fin (1 / 2))
   \<and> pose_to_pointer (straight_pose 0 0 5) (Fin (- 1)) (Fin 1) (Fin 1) (Fin (- 1)) (Fin 5)
        (mouseX (initial NaN NaN NaN NaN NaN)) (mouseY (initial NaN NaN NaN NaN NaN))
      = (1, Fin (1 / 2), Fin (1 / 2))"
proof -
  have c: "candidate (straight_pose 0 0 5) (Fin (- 1)) (Fin 1) (Fin 1) (Fin (- 1)) (Fin 5)
     = (Fin (1 / 2), Fin (1 / 2))"
    by (simp add: candidate_straight)
  have r: "in_range01 (Fin (1 / 2))" by (simp add: in_range01_def)
  from first_candidate_emitted_unless_origin [OF c r r, of NaN NaN NaN NaN NaN]
  have "pose_to_pointer (straight_pose 0 0 5) (Fin (- 1)) (Fin 1) (Fin 1) (Fin (- 1)) (Fin 5)
        (mouseX (initial NaN NaN NaN NaN NaN)) (mouseY (initial NaN NaN NaN NaN NaN))
      = (if Fin (1 / 2) = Fin 0 \<and> Fin (1 / 2) = Fin 0 then (0, Fin 0, Fin 0)
         else (1, Fin (1 / 2), Fin (1 / 2)))"
    by blast
  then have "pose_to_pointer (straight_pose 0 0 5) (Fin (- 1)) (Fin 1) (Fin 1) (Fin (- 1)) (Fin 5)
        (mouseX (initial NaN NaN NaN NaN NaN)) (mouseY (initial NaN NaN NaN NaN NaN))
      = (1, Fin (1 / 2), Fin (1 / 2))"
    by simp
  with c r show ?thesis by blast
qed

text \<open>
  Claim C10, as stated, fails: after a calibration with the corners \<open>(0, 0)\<close> and
  \<open>(1, 1)\<close>, the first pose aims at the first corner, its candidate is \<open>(0, 0)\<close>, and
  nothing is written to the device.
\<close>

theorem first_candidate_at_origin_not_emitted:
  "mouseX (initial NaN NaN NaN NaN NaN) = Fin 0 \<and> mouseY (initial NaN NaN NaN NaN NaN) = Fin 0
   \<and> in_range01 (Fin 0)
   \<and> candidate (straight_pose 0 0 5) (Fin 0) (Fin 1) (Fin 0) (Fin 1) (Fin 5) = (Fin 0, Fin 0)
   \<and> last (states_of (initial NaN NaN NaN NaN NaN)
      [sample (straight_pose 0 0 5) press idle idle,
       sample (straight_pose 0 0 5) release idle idle,
       sample (straight_pose 1 1 5) press idle idle,
       sample (straight_pose 0 0 5) hold idle idle])
     = calibrated 0 1 0 1 5
   \<and> fd (calibrated 0 1 0 1 5) = []"
proof -
  let ?s = "calibrated 0 1 0 1 5"
  let ?i = "sample (straight_pose 0 0 5) hold idle idle"
  have c: "candidate (straight_pose 0 0 5) (Fin 0) (Fin 1) (Fin 0) (Fin 1) (Fin 5) = (Fin 0, Fin 0)"
    by (simp add: candidate_straight)
  have p: "pose_to_pointer (aimState ?i) (x0 ?s) (x1 ?s) (y0 ?s) (y1 ?s) (z ?s)
        (mouseX ?s) (mouseY ?s) = (0, Fin 0, Fin 0)"
    by (simp add: calibrated_def sample_def pose_to_pointer_candidate c fgt_def fne_def)
  have k: "key_events ?i = []"
    by (simp add: key_events_def key_event_def sample_def idle_def hold_def button_def)
  have t: "tick ?s ?i = (Continue, playing ?s ?i)"
    by (rule tick_playing) (simp_all add: calibrated_def all_succeed_def sample_def)
  have pl: "playing ?s ?i = ?s"
    by (simp add: playing_eq p k) (simp add: calibrated_def sample_def idle_def button_def)
  have l: "last (states_of ?s [?i]) = ?s"
    using t pl by (simp add: calibrated_def)
  show ?thesis
    by (simp only: last_states_of_calibration l c) (simp add: in_range01_def initial_def calibrated_def)
qed


lemma forward_refl: "forward s s"
  by (cases "state s") (simp_all add: forward_def)








end
